theory Spec2Isabelle
  imports Complex_Main "HOL-Library.Multiset"
begin

section \<open>Numbers of the host language\<close>

text \<open>
  The program computes on the host language's numbers. Finite numbers are modelled as
  reals, and rounding enters the model only where it decides a branch (the square roots of
  \<open>distanceBetween\<close>); the non-finite values appear where the code tests for them
  (\<open>Number.isFinite\<close>) or where a library function leaves its domain.
\<close>

datatype jsnum = Num real | NaN | PosInfinity | NegInfinity

fun isFinite :: "jsnum \<Rightarrow> bool" where
  "isFinite (Num r) = True"
| "isFinite NaN = False"
| "isFinite PosInfinity = False"
| "isFinite NegInfinity = False"

text \<open>
  The remainder operator \<open>a % b\<close> on finite numbers with \<open>b \<noteq> 0\<close>: the quotient is
  truncated towards zero, so the result has the sign of the dividend. Every use in the
  program has the literal divisor 360.
\<close>

definition trunc_real :: "real \<Rightarrow> int" where
  "trunc_real x = (if 0 \<le> x then \<lfloor>x\<rfloor> else \<lceil>x\<rceil>)"

definition js_rem :: "real \<Rightarrow> real \<Rightarrow> real" where
  "js_rem a b = a - b * of_int (trunc_real (a / b))"

text \<open>The same operator on integers (the rank arithmetic of the markers).\<close>

definition js_rem_int :: "int \<Rightarrow> int \<Rightarrow> int" where
  "js_rem_int a b = sgn a * (\<bar>a\<bar> mod \<bar>b\<bar>)"

text \<open>
  \<open>Math.atan2(y, x)\<close> on finite arguments: the angle of the point \<open>(x, y)\<close> in
  \<open>(-\<pi>, \<pi>]\<close>, and 0 at the origin.
\<close>

definition atan2 :: "real \<Rightarrow> real \<Rightarrow> real" where
  "atan2 y x =
     (if 0 < x then arctan (y / x)
      else if x < 0 then (if 0 \<le> y then arctan (y / x) + pi else arctan (y / x) - pi)
      else if 0 < y then pi / 2
      else if y < 0 then - (pi / 2)
      else 0)"

text \<open>\<open>Math.sqrt\<close>: not a number (\<open>None\<close>) below zero.\<close>

definition js_sqrt :: "real \<Rightarrow> real option" where
  "js_sqrt x = (if x < 0 then None else Some (sqrt x))"


section \<open>Data model\<close>

record coordinate =
  lat :: real
  lng :: real

text \<open>
  The type \<open>Building\<close>; its fields \<open>id\<close>, \<open>type\<close>, \<open>lat\<close> and \<open>lng\<close> carry a suffix
  here.
\<close>

record Building =
  id_b :: int
  label :: string
  type_b :: string
  address :: "string option"
  lat_b :: real
  lng_b :: real


section \<open>Geodesy: \<open>bearingBetween\<close> and \<open>distanceBetween\<close>\<close>

definition toRad :: "real \<Rightarrow> real" where
  "toRad deg = (deg * pi) / 180"

definition bearingBetween :: "coordinate \<Rightarrow> coordinate \<Rightarrow> real" where
  "bearingBetween from to =
     (let lat1 = toRad (lat from);
          lat2 = toRad (lat to);
          deltaLng = toRad (lng to - lng from);
          y = sin deltaLng * cos lat2;
          x = cos lat1 * sin lat2 - sin lat1 * cos lat2 * cos deltaLng;
          brng = (atan2 y x * 180) / pi
      in js_rem (brng + 360) 360)"

text \<open>
  The haversine distance. The term \<open>a\<close> of lines 178 and 179, computed exactly, is
  \<open>haversine_a\<close>.
\<close>

definition haversine_a :: "coordinate \<Rightarrow> coordinate \<Rightarrow> real" where
  "haversine_a from to =
     (let lat1 = toRad (lat from);
          lat2 = toRad (lat to);
          deltaLat = toRad (lat to - lat from);
          deltaLng = toRad (lng to - lng from)
      in (sin (deltaLat / 2))\<^sup>2 + cos lat1 * cos lat2 * (sin (deltaLng / 2))\<^sup>2)"

text \<open>
  The program computes \<open>a\<close> in double arithmetic, and here the rounding decides a branch:
  \<open>Math.sqrt\<close> is not a number below zero, so \<open>a\<close> rounded above 1 makes the distance not
  a number. The model therefore takes the rounding error of \<open>a\<close> at a pair of coordinates,
  as the program's arithmetic leaves it, as the parameter \<open>err\<close>; \<open>exact\<close> is arithmetic
  without rounding. The result is \<open>None\<close> where a square root is taken of a negative
  number.
\<close>

type_synonym rounding = "coordinate \<Rightarrow> coordinate \<Rightarrow> real"

definition exact :: rounding where
  "exact from to = 0"

definition distanceBetween :: "rounding \<Rightarrow> coordinate \<Rightarrow> coordinate \<Rightarrow> real option" where
  "distanceBetween err from to =
     (let radiusMeters = 6371000;
          a = haversine_a from to + err from to
      in case js_sqrt a of
           None \<Rightarrow> None
         | Some sa \<Rightarrow>
             (case js_sqrt (1 - a) of
                None \<Rightarrow> None
              | Some sb \<Rightarrow> Some (radiusMeters * (2 * atan2 sa sb))))"


section \<open>State of the component \<open>App\<close>\<close>

text \<open>
  The user-visible texts are string literals of the source; the model names each one.
  \<open>orientationError\<close>: the empty string, the text set when the orientation interface is
  absent (line 87), the text set when permission is not granted (line 122).
\<close>

datatype orientation_error = NoOrientationError | OrientationUnsupported | OrientationNotGranted

text \<open>
  \<open>status\<close>: the initial text, "locating" (line 70), "searching" (line 43), the count of
  buildings found (line 47), "failed" (line 50), "falling back" (line 56).
\<close>

datatype status_text =
  StatusInitial | StatusLocating | StatusSearching | StatusFound nat | StatusFailed
  | StatusFallback

text \<open>
  \<open>error\<close>: the empty string, the text for a browser without geolocation (line 66), the
  text built from a geolocation error's message (line 76), the text of a failed building
  request (lines 36 and 49), or the message of any other error the request raised.
\<close>

datatype error_text =
  NoError | GeolocationUnsupported | GeolocationFailed string | BuildingFetchFailed
  | OtherError string

text \<open>
  The signals and the closure variables of \<open>App\<close>, followed by what the browser and the
  framework hold for it: the registered \<open>handleOrientation\<close> listeners and the registered
  cleanup callbacks (each named by its activation's number), the pending animation
  frame requests (by request id), the calls of \<open>startOrientation\<close> suspended at
  \<open>requestPermission\<close>, the pending geolocation and building requests, and the building
  requests sent so far.
\<close>

record app_state =
  status :: status_text
  error :: error_text
  buildings :: "Building list"
  radius :: real
  coords :: "coordinate option"
  hasSearched :: bool
  heading :: "real option"
  rawHeading :: "real option"
  orientationError :: orientation_error
  headingHistory :: "real list"
  orientationActive :: bool
  headingAnimationId :: "nat option"
  listeners :: "nat list"
  cleanups :: "nat list"
  frames :: "nat list"
  nextFrame :: nat
  nextActivation :: nat
  awaitingPermission :: nat
  awaitingPosition :: nat
  awaitingBuildings :: nat
  requested :: "(real \<times> real \<times> real) list"

definition headingHistorySize :: nat where
  "headingHistorySize = 12"

definition fallbackCoords :: coordinate where
  "fallbackCoords = \<lparr>lat = 35.65702, lng = 139.70311\<rparr>"

definition initial_state :: app_state where
  "initial_state =
     \<lparr>status = StatusInitial, error = NoError, buildings = [], radius = 200, coords = None,
      hasSearched = False, heading = None, rawHeading = None,
      orientationError = NoOrientationError, headingHistory = [],
      orientationActive = False, headingAnimationId = None,
      listeners = [], cleanups = [], frames = [], nextFrame = 0, nextActivation = 0,
      awaitingPermission = 0, awaitingPosition = 0, awaitingBuildings = 0, requested = []\<rparr>"

text \<open>What the platform offers.\<close>

record platform =
  hasGeolocation :: bool
  hasDeviceOrientation :: bool
  needsPermission :: bool


section \<open>The search flow\<close>

text \<open>
  \<open>searchAround\<close> up to its \<open>await\<close>: the coordinate and the status are set and the
  request for the buildings is sent with the radius of that moment.
\<close>

definition searchAround :: "real \<Rightarrow> real \<Rightarrow> app_state \<Rightarrow> app_state" where
  "searchAround la lo st =
     st\<lparr>coords := Some \<lparr>lat = la, lng = lo\<rparr>,
        status := StatusSearching,
        requested := requested st @ [(la, lo, radius st)],
        awaitingBuildings := Suc (awaitingBuildings st)\<rparr>"

text \<open>
  How \<open>fetchBuildings\<close> ends: with the parsed body (its \<open>buildings\<close> field may be
  absent), with a response that is not ok, or with another error (with its message when it
  is an \<open>Error\<close>).
\<close>

datatype fetch_result =
  FetchBody "Building list option" | FetchNotOk | FetchThrew "string option"

text \<open>\<open>searchAround\<close> after its \<open>await\<close>.\<close>

fun searchAround_settled :: "fetch_result \<Rightarrow> app_state \<Rightarrow> app_state" where
  "searchAround_settled (FetchBody bs) st =
     st\<lparr>buildings := (case bs of None \<Rightarrow> [] | Some l \<Rightarrow> l),
        status := StatusFound (case bs of None \<Rightarrow> 0 | Some l \<Rightarrow> length l)\<rparr>"
| "searchAround_settled FetchNotOk st =
     st\<lparr>error := BuildingFetchFailed, status := StatusFailed\<rparr>"
| "searchAround_settled (FetchThrew m) st =
     st\<lparr>error := (case m of None \<Rightarrow> BuildingFetchFailed | Some t \<Rightarrow> OtherError t),
        status := StatusFailed\<rparr>"

definition fallbackToDefault :: "error_text \<Rightarrow> app_state \<Rightarrow> app_state" where
  "fallbackToDefault message st =
     searchAround (lat fallbackCoords) (lng fallbackCoords)
       (st\<lparr>error := message, status := StatusFallback\<rparr>)"

definition requestLocation :: "platform \<Rightarrow> app_state \<Rightarrow> app_state" where
  "requestLocation pf st =
     (let st1 = st\<lparr>error := NoError, buildings := [], hasSearched := True\<rparr>
      in if \<not> hasGeolocation pf then fallbackToDefault GeolocationUnsupported st1
         else st1\<lparr>status := StatusLocating, awaitingPosition := Suc (awaitingPosition st1)\<rparr>)"

text \<open>
  The radius field's \<open>onInput\<close>: \<open>Number(value) || 200\<close>. A number field's value is
  empty or a finite number; the empty value converts to 0.
\<close>

definition radiusInput :: "real option \<Rightarrow> app_state \<Rightarrow> app_state" where
  "radiusInput v st =
     (let n = (case v of None \<Rightarrow> 0 | Some r \<Rightarrow> r)
      in st\<lparr>radius := (if n = 0 then 200 else n)\<rparr>)"


section \<open>The heading estimator: \<open>startOrientation\<close>\<close>

text \<open>
  A \<open>deviceorientationabsolute\<close> event: \<open>webkitCompassHeading\<close> may be absent or any
  number, \<open>alpha\<close> may be null.
\<close>

record orientation_event =
  webkitCompassHeading :: "jsnum option"
  alpha :: "real option"

text \<open>
  The value \<open>handleOrientation\<close> reads off an event (lines 95 to 100):
  \<open>Number.isFinite(compass)\<close> holds exactly for a compass heading that is present and a
  finite number.
\<close>

definition eventValue :: "orientation_event \<Rightarrow> real option" where
  "eventValue event =
     (case webkitCompassHeading event of
        Some (Num compass) \<Rightarrow> Some compass
      | _ \<Rightarrow> (case alpha event of
                None \<Rightarrow> None
              | Some al \<Rightarrow> Some (js_rem (360 - al + 360) 360)))"

definition handleOrientation :: "orientation_event \<Rightarrow> app_state \<Rightarrow> app_state" where
  "handleOrientation event st =
     (case eventValue event of
        None \<Rightarrow> st
      | Some v \<Rightarrow>
          (let st1 = st\<lparr>rawHeading := Some v\<rparr>;
               st2 = (if heading st1 = None then st1\<lparr>heading := Some v\<rparr> else st1)
           in if orientationError st2 \<noteq> NoOrientationError
              then st2\<lparr>orientationError := NoOrientationError\<rparr> else st2))"

text \<open>\<open>window.requestAnimationFrame(updateHeading)\<close> with the assignment of its id.\<close>

definition requestFrame :: "app_state \<Rightarrow> app_state" where
  "requestFrame st =
     st\<lparr>frames := frames st @ [nextFrame st],
        headingAnimationId := Some (nextFrame st),
        nextFrame := Suc (nextFrame st)\<rparr>"

text \<open>
  The loop of lines 137 to 143 and the expression of lines 144 and 145. The code evaluates
  them right after a push, on a history that is not empty, so the two divisions are by a
  positive length.
\<close>

definition accumulate :: "real list \<Rightarrow> real \<times> real" where
  "accumulate history =
     fold (\<lambda>deg (sinSum, cosSum).
             let rad = (deg * pi) / 180 in (sinSum + sin rad, cosSum + cos rad))
       history (0, 0)"

definition smoothed :: "real list \<Rightarrow> real" where
  "smoothed history =
     (let (sinSum, cosSum) = accumulate history;
          avg = atan2 (sinSum / real (length history)) (cosSum / real (length history))
      in js_rem ((avg * 180) / pi + 360) 360)"

definition push_sample :: "real \<Rightarrow> real list \<Rightarrow> real list" where
  "push_sample v history =
     (let h = history @ [v]
      in if length h > headingHistorySize then tl h else h)"

definition updateHeading :: "app_state \<Rightarrow> app_state" where
  "updateHeading st =
     requestFrame
       (case rawHeading st of
          None \<Rightarrow> st
        | Some v \<Rightarrow>
            (let h = push_sample v (headingHistory st)
             in st\<lparr>headingHistory := h, heading := Some (smoothed h)\<rparr>))"

text \<open>
  \<open>onCleanup(fn)\<close> hands \<open>fn\<close> to the reactive owner under which the calling code runs,
  to be run when that owner is disposed; called under no owner it registers nothing.
  \<open>startOrientation\<close> is called from the \<open>onClick\<close> handlers of lines 269 and 314 only, and
  a handler, like the continuation of an \<open>await\<close>, runs under no owner.
\<close>

definition onCleanup :: "bool \<Rightarrow> nat \<Rightarrow> app_state \<Rightarrow> app_state" where
  "onCleanup owned k st = (if owned then st\<lparr>cleanups := cleanups st @ [k]\<rparr> else st)"

definition handlerOwned :: bool where
  "handlerOwned = False"

text \<open>
  \<open>startOrientation\<close> from line 127 on: the activation. The listener and the cleanup
  callback are new closures of this activation.
\<close>

definition activate :: "app_state \<Rightarrow> app_state" where
  "activate st =
     (let k = nextActivation st;
          st1 = st\<lparr>orientationActive := True, headingHistory := [],
                   listeners := listeners st @ [k], nextActivation := Suc k\<rparr>;
          st2 = requestFrame st1
      in onCleanup handlerOwned k st2)"

text \<open>
  \<open>startOrientation\<close> up to its first suspension. The function is \<open>async\<close>: where the
  platform has \<open>requestPermission\<close> the call is suspended at line 118 and other events are
  handled before it resumes; elsewhere it runs to its end.
\<close>

definition startOrientation :: "platform \<Rightarrow> app_state \<Rightarrow> app_state" where
  "startOrientation pf st =
     (let st1 = st\<lparr>orientationError := NoOrientationError\<rparr>
      in if \<not> hasDeviceOrientation pf then st1\<lparr>orientationError := OrientationUnsupported\<rparr>
         else if orientationActive st1 then st1
         else if needsPermission pf
           then st1\<lparr>awaitingPermission := Suc (awaitingPermission st1)\<rparr>
         else activate st1)"

datatype permission = Granted | Denied

text \<open>\<open>startOrientation\<close> resumed with the answer of \<open>requestPermission\<close>.\<close>

definition startOrientation_resumed :: "permission \<Rightarrow> app_state \<Rightarrow> app_state" where
  "startOrientation_resumed result st =
     (if result \<noteq> Granted then st\<lparr>orientationError := OrientationNotGranted\<rparr>
      else activate st)"

text \<open>The callback given to \<open>onCleanup\<close> by activation \<open>k\<close> (lines 150 to 157).\<close>

definition cleanup :: "nat \<Rightarrow> app_state \<Rightarrow> app_state" where
  "cleanup k st =
     (let st1 = st\<lparr>listeners := removeAll k (listeners st), orientationActive := False\<rparr>
      in case headingAnimationId st1 of
           None \<Rightarrow> st1
         | Some i \<Rightarrow> st1\<lparr>frames := removeAll i (frames st1), headingAnimationId := None\<rparr>)"


section \<open>Events\<close>

text \<open>
  The program is single-threaded: each event is handled to completion before the next.
  An event that answers a request is ignored when no such request is pending. An
  orientation event runs every registered listener; an animation frame runs the callbacks
  that were pending when it began; the teardown of the component runs the cleanup
  callbacks that were registered.
\<close>

datatype event =
    ClickSearch
  | PositionFound real real
  | PositionFailed string
  | BuildingsSettled fetch_result
  | RadiusInput "real option"
  | ClickOrientation
  | PermissionSettled permission
  | DeviceOrientation orientation_event
  | AnimationFrame
  | Teardown

fun step :: "platform \<Rightarrow> event \<Rightarrow> app_state \<Rightarrow> app_state" where
  "step pf ClickSearch st = requestLocation pf st"
| "step pf (PositionFound la lo) st =
     (if awaitingPosition st = 0 then st
      else searchAround la lo (st\<lparr>awaitingPosition := awaitingPosition st - 1\<rparr>))"
| "step pf (PositionFailed m) st =
     (if awaitingPosition st = 0 then st
      else fallbackToDefault (GeolocationFailed m)
             (st\<lparr>awaitingPosition := awaitingPosition st - 1\<rparr>))"
| "step pf (BuildingsSettled r) st =
     (if awaitingBuildings st = 0 then st
      else searchAround_settled r (st\<lparr>awaitingBuildings := awaitingBuildings st - 1\<rparr>))"
| "step pf (RadiusInput v) st = radiusInput v st"
| "step pf ClickOrientation st = startOrientation pf st"
| "step pf (PermissionSettled r) st =
     (if awaitingPermission st = 0 then st
      else startOrientation_resumed r
             (st\<lparr>awaitingPermission := awaitingPermission st - 1\<rparr>))"
| "step pf (DeviceOrientation e) st =
     fold (\<lambda>k. handleOrientation e) (listeners st) st"
| "step pf AnimationFrame st =
     fold (\<lambda>i. updateHeading) (frames st) (st\<lparr>frames := []\<rparr>)"
| "step pf Teardown st =
     fold cleanup (cleanups st) (st\<lparr>cleanups := []\<rparr>)"

definition run :: "platform \<Rightarrow> event list \<Rightarrow> app_state \<Rightarrow> app_state" where
  "run pf events st = fold (step pf) events st"


section \<open>The radial layout\<close>

text \<open>The memo \<open>beadings\<close>: the bearing of every building, null while no coordinate is known.\<close>

definition beadings :: "coordinate option \<Rightarrow> Building list \<Rightarrow> real option list" where
  "beadings c bs =
     map (\<lambda>building.
            case c of
              None \<Rightarrow> None
            | Some from \<Rightarrow> Some (bearingBetween from \<lparr>lat = lat_b building, lng = lng_b building\<rparr>))
       bs"

text \<open>
  \<open>Array.prototype.indexOf\<close>: the first index holding the value, \<open>-1\<close> when there is
  none.
\<close>

fun indexOf :: "'a list \<Rightarrow> 'a \<Rightarrow> int" where
  "indexOf [] x = - 1"
| "indexOf (y # ys) x =
     (if y = x then 0 else (let r = indexOf ys x in if r < 0 then - 1 else r + 1))"

text \<open>
  The memo \<open>beadingRanks\<close>. The comparator \<open>a - b\<close> reads null as 0; the host's sort is
  stable, as \<open>sort_key\<close> is.
\<close>

definition nullAsZero :: "real option \<Rightarrow> real" where
  "nullAsZero a = (case a of None \<Rightarrow> 0 | Some r \<Rightarrow> r)"

definition beadingRanks :: "real option list \<Rightarrow> int list" where
  "beadingRanks bearings =
     (let sorted = sort_key nullAsZero bearings
      in map (\<lambda>bearing. indexOf sorted bearing) bearings)"

text \<open>Reading an array at an index: undefined (\<open>None\<close>) out of range.\<close>

definition at_index :: "'a list \<Rightarrow> nat \<Rightarrow> 'a option" where
  "at_index xs i = (if i < length xs then Some (xs ! i) else None)"

text \<open>The eight fixed markers and the closure \<open>relative\<close> of lines 341 to 345.\<close>

definition cardinals :: "(string \<times> real) list" where
  "cardinals =
     [(''N'', 0), (''NE'', 45), (''E'', 90), (''SE'', 135),
      (''S'', 180), (''SW'', 225), (''W'', 270), (''NW'', 315)]"

definition relative_dir :: "real option \<Rightarrow> string \<times> real \<Rightarrow> real" where
  "relative_dir h dir =
     (let headingValue = (case h of None \<Rightarrow> 0 | Some v \<Rightarrow> v);
          rawRelative = snd dir - headingValue
      in js_rem (rawRelative + 540) 360 - 180)"

text \<open>The closure \<open>relative\<close> of a building marker, lines 369 to 373.\<close>

definition relative_building :: "real option \<Rightarrow> real \<Rightarrow> real" where
  "relative_building h bearing =
     (let headingValue = (case h of None \<Rightarrow> 0 | Some v \<Rightarrow> v);
          rawRelative = bearing - headingValue
      in js_rem (rawRelative + 540) 360 - 180)"

text \<open>The closure \<open>verticalOffset\<close>, lines 374 to 379, on the rank it reads.\<close>

definition verticalOffset :: "int \<Rightarrow> int" where
  "verticalOffset r =
     (let rank = js_rem_int r 20;
          spacing = 24;
          centerOffset = (spacing * 20) div 2
      in rank * spacing - centerOffset)"

text \<open>
  What one building marker shows. A value read from an array past its end is undefined,
  and the arithmetic on it is not a number: \<open>None\<close>.
\<close>

record marker =
  shown :: Building
  relativeValue :: "real option"
  offset :: "int option"
  distanceMeters :: "real option"
  isNear :: bool

text \<open>
  The body of the second \<open>For\<close> (lines 366 to 382) for the building at position
  \<open>index\<close> of the list the \<open>For\<close> iterates.
\<close>

definition building_marker ::
  "rounding \<Rightarrow> real option \<Rightarrow> coordinate \<Rightarrow> Building list \<Rightarrow> Building \<Rightarrow> nat \<Rightarrow> marker"
  where
  "building_marker err h from bs building index =
     (let bearing = (case at_index (beadings (Some from) bs) index of
                       Some (Some b) \<Rightarrow> Some b | _ \<Rightarrow> None);
          rank = at_index (beadingRanks (beadings (Some from) bs)) index;
          d = distanceBetween err from \<lparr>lat = lat_b building, lng = lng_b building\<rparr>
      in \<lparr>shown = building,
          relativeValue = map_option (relative_building h) bearing,
          offset = map_option verticalOffset rank,
          distanceMeters = d,
          isNear = (case d of None \<Rightarrow> False | Some m \<Rightarrow> m \<le> 100)\<rparr>)"

text \<open>
  The markers of the radial view (line 365): the \<open>For\<close> iterates the buildings whose
  label is not the placeholder, and hands each its index in that filtered list.
\<close>

definition radial_markers ::
  "rounding \<Rightarrow> real option \<Rightarrow> coordinate \<Rightarrow> Building list \<Rightarrow> marker list" where
  "radial_markers err h from bs =
     (let each = filter (\<lambda>v. label v \<noteq> ''yes'') bs
      in map (\<lambda>(index, building). building_marker err h from bs building index)
           (enumerate 0 each))"

text \<open>The list view \<open>BuildingsList\<close> iterates the buildings themselves (line 195).\<close>

definition list_view :: "Building list \<Rightarrow> Building list" where
  "list_view bs = bs"


section \<open>The backend route \<open>GET /api/buildings\<close>\<close>

datatype element_type = Node | Way | Relation

record OverpassElement =
  id_e :: int
  type_e :: element_type
  lat_e :: "real option"
  lon_e :: "real option"
  center :: "(real \<times> real) option"
  tags :: "(string \<rightharpoonup> string) option"

text \<open>A string is truthy when it is present and not empty; \<open>a || b\<close> on such values.\<close>

definition truthy :: "string option \<Rightarrow> bool" where
  "truthy v = (case v of None \<Rightarrow> False | Some t \<Rightarrow> t \<noteq> [])"

definition or_else :: "string option \<Rightarrow> string option \<Rightarrow> string option" where
  "or_else a b = (if truthy a then a else b)"

definition toAddress :: "(string \<rightharpoonup> string) \<Rightarrow> string option" where
  \<open>toAddress tgs =
     (if truthy (tgs ''addr:full'') then tgs ''addr:full''
      else
        (let street = tgs ''addr:street'';
             number = tgs ''addr:housenumber''
         in case (street, number) of
              (Some st, Some nu) \<Rightarrow>
                (if st \<noteq> [] \<and> nu \<noteq> [] then Some (st @ '' '' @ nu)
                 else if st \<noteq> [] then Some st else None)
            | (Some st, None) \<Rightarrow> (if st \<noteq> [] then Some st else None)
            | (None, _) \<Rightarrow> None))\<close>

text \<open>The label given to a building without any name: the literal of line 88, in UTF-8.\<close>

definition defaultLabel :: string where
  "defaultLabel = [CHR 0xE5, CHR 0xBB, CHR 0xBA, CHR 0xE7, CHR 0x89, CHR 0xA9]"

text \<open>The callback of \<open>map\<close>, lines 79 to 94; \<open>None\<close> is its null.\<close>

definition toBuilding :: "OverpassElement \<Rightarrow> Building option" where
  \<open>toBuilding element =
     (let tgs = (case tags element of None \<Rightarrow> Map.empty | Some t \<Rightarrow> t);
          latValue = (case lat_e element of Some v \<Rightarrow> Some v
                      | None \<Rightarrow> map_option fst (center element));
          lngValue = (case lon_e element of Some v \<Rightarrow> Some v
                      | None \<Rightarrow> map_option snd (center element))
      in case (latValue, lngValue) of
           (Some la, Some lo) \<Rightarrow>
             Some \<lparr>id_b = id_e element,
                   label = (case or_else (or_else (tgs ''name'') (tgs ''addr:housename''))
                                   (tgs ''building'') of
                              Some t \<Rightarrow> (if t \<noteq> [] then t else defaultLabel)
                            | None \<Rightarrow> defaultLabel),
                   type_b = (case tgs ''building'' of
                               Some t \<Rightarrow> (if t \<noteq> [] then t else ''building'')
                             | None \<Rightarrow> ''building''),
                   address = toAddress tgs,
                   lat_b = la, lng_b = lo\<rparr>
         | _ \<Rightarrow> None)\<close>

text \<open>The request sent upstream and how it ends.\<close>

record request =
  url :: string
  http_method :: string
  headers :: "(string \<times> string) list"
  body :: string

text \<open>
  \<open>fetch\<close> rejects, or resolves to a response with its \<open>ok\<close> flag and its body; the
  body parses (\<open>response.json()\<close>) to an object whose \<open>elements\<close> may be absent, or it
  does not parse.
\<close>

datatype upstream = Rejected | Response bool "OverpassElement list option option"

text \<open>
  The functions of the runtime the handler calls: \<open>Number\<close> on a string, the conversion of
  a number to a string inside a template, \<open>encodeURIComponent\<close>, and \<open>fetch\<close>.
\<close>

record runtime =
  Number_of :: "string \<Rightarrow> jsnum"
  String_of :: "real \<Rightarrow> string"
  encodeURIComponent :: "string \<Rightarrow> string"
  fetch :: "request \<Rightarrow> upstream"

text \<open>\<open>Number(v)\<close> for a query parameter, which is undefined when absent.\<close>

definition toNumber :: "runtime \<Rightarrow> string option \<Rightarrow> jsnum" where
  "toNumber rt v = (case v of None \<Rightarrow> NaN | Some t \<Rightarrow> Number_of rt t)"

definition overpassEndpoint :: string where
  \<open>overpassEndpoint = ''https://overpass-api.de/api/interpreter''\<close>

definition overpassQuery :: "runtime \<Rightarrow> real \<Rightarrow> real \<Rightarrow> real \<Rightarrow> string" where
  \<open>overpassQuery rt clampedRadius latNum lngNum =
     concat
       [''[out:json][timeout:25];'',
        ''('',
        ''way["building"](around:'' @ String_of rt clampedRadius @ '','' @ String_of rt latNum
          @ '','' @ String_of rt lngNum @ '');'',
        ''relation["building"](around:'' @ String_of rt clampedRadius @ '',''
          @ String_of rt latNum @ '','' @ String_of rt lngNum @ '');'',
        '');'',
        ''out center tags;'']\<close>

definition overpassRequest :: "runtime \<Rightarrow> string \<Rightarrow> request" where
  \<open>overpassRequest rt query =
     \<lparr>url = overpassEndpoint,
      http_method = ''POST'',
      headers = [(''Content-Type'', ''application/x-www-form-urlencoded; charset=UTF-8'')],
      body = ''data='' @ encodeURIComponent rt query\<rparr>\<close>

text \<open>
  What the handler answers: a JSON body with a status, or nothing when an error escapes
  it (a rejected \<open>fetch\<close>, a body that does not parse); the framework then answers in its
  place, without a body of the handler's.
\<close>

datatype response_body = ErrorBody string | BuildingsBody "Building list" real

datatype reply = Threw | Json response_body nat

text \<open>The radius of lines 52 to 54.\<close>

definition clampedRadius_of :: "jsnum \<Rightarrow> real" where
  "clampedRadius_of radiusNum =
     (let radiusMeters = (case radiusNum of Num r \<Rightarrow> r | _ \<Rightarrow> 200)
      in min (max radiusMeters 50) 1000)"

text \<open>
  The handler, on the query parameters: the requests it sent upstream and its answer.
\<close>

definition get_buildings ::
  "runtime \<Rightarrow> (string \<rightharpoonup> string) \<Rightarrow> request list \<times> reply" where
  \<open>get_buildings rt query =
     (case (toNumber rt (query ''lat''), toNumber rt (query ''lng'')) of
        (Num latNum, Num lngNum) \<Rightarrow>
          (let clampedRadius = clampedRadius_of (toNumber rt (query ''radius''));
               req = overpassRequest rt (overpassQuery rt clampedRadius latNum lngNum)
           in case fetch rt req of
                Rejected \<Rightarrow> ([req], Threw)
              | Response ok data \<Rightarrow>
                  (if \<not> ok then ([req], Json (ErrorBody ''Failed to fetch OSM data.'') 502)
                   else case data of
                          None \<Rightarrow> ([req], Threw)
                        | Some elements \<Rightarrow>
                            ([req],
                             Json (BuildingsBody
                                     (List.map_filter toBuilding
                                        (case elements of None \<Rightarrow> [] | Some es \<Rightarrow> es))
                                     clampedRadius)
                               200)))
      | _ \<Rightarrow> ([], Json (ErrorBody ''Invalid coordinates.'') 400))\<close>


section \<open>The specification's circular mean\<close>

text \<open>
  The circular mean as the specification words it: each sample converted to radians, the
  sines and the cosines summed, \<open>atan2\<close> of the two means taken, the angle converted back
  to degrees and normalized to \<open>[0, 360)\<close>, that is, replaced by the one angle of that range
  that differs from it by a multiple of 360.
\<close>

definition normalize360 :: "real \<Rightarrow> real" where
  "normalize360 d = d - 360 * of_int \<lfloor>d / 360\<rfloor>"

definition circularMean :: "real list \<Rightarrow> real" where
  "circularMean samples =
     (let rads = map toRad samples;
          meanSin = sum_list (map sin rads) / real (length samples);
          meanCos = sum_list (map cos rads) / real (length samples)
      in normalize360 ((atan2 meanSin meanCos * 180) / pi))"

text \<open>
  Samples arriving one per frame: each is delivered by the sensor (as a compass heading)
  and followed by one animation frame.
\<close>

definition sample :: "real \<Rightarrow> orientation_event" where
  "sample v = \<lparr>webkitCompassHeading = Some (Num v), alpha = None\<rparr>"

definition sampled :: "real list \<Rightarrow> event list" where
  "sampled vs = concat (map (\<lambda>v. [DeviceOrientation (sample v), AnimationFrame]) vs)"


section \<open>Kinds of events\<close>

text \<open>An event that hands a raw heading sample to the listeners.\<close>

fun delivers_sample :: "event \<Rightarrow> bool" where
  "delivers_sample (DeviceOrientation e) = (eventValue e \<noteq> None)"
| "delivers_sample _ = False"

text \<open>The events of the location-based search flow.\<close>

fun search_event :: "event \<Rightarrow> bool" where
  "search_event ClickSearch = True"
| "search_event (PositionFound la lo) = True"
| "search_event (PositionFailed m) = True"
| "search_event (BuildingsSettled r) = True"
| "search_event (RadiusInput v) = True"
| "search_event _ = False"


section \<open>Example inputs\<close>

text \<open>
  Three platforms: one that delivers orientation events without asking, one that asks for
  permission first, one without the orientation interface.
\<close>

definition plain_platform :: platform where
  "plain_platform =
     \<lparr>hasGeolocation = True, hasDeviceOrientation = True, needsPermission = False\<rparr>"

definition asking_platform :: platform where
  "asking_platform =
     \<lparr>hasGeolocation = True, hasDeviceOrientation = True, needsPermission = True\<rparr>"

definition bare_platform :: platform where
  "bare_platform =
     \<lparr>hasGeolocation = True, hasDeviceOrientation = False, needsPermission = False\<rparr>"

text \<open>
  A user and four buildings on the user's meridian: three due north, one of them carrying
  the placeholder label, and one due south.
\<close>

definition user :: coordinate where
  "user = \<lparr>lat = 35.6570, lng = 139.7031\<rparr>"

definition unnamed :: Building where
  "unnamed = \<lparr>id_b = 1, label = ''yes'', type_b = ''yes'', address = None,
              lat_b = 35.6575, lng_b = 139.7031\<rparr>"

definition hall :: Building where
  "hall = \<lparr>id_b = 2, label = ''Hall'', type_b = ''civic'', address = None,
           lat_b = 35.6580, lng_b = 139.7031\<rparr>"

definition shrine :: Building where
  "shrine = \<lparr>id_b = 3, label = ''Shrine'', type_b = ''shrine'', address = None,
             lat_b = 35.6590, lng_b = 139.7031\<rparr>"

definition tower :: Building where
  "tower = \<lparr>id_b = 4, label = ''Tower'', type_b = ''office'', address = None,
            lat_b = 35.6560, lng_b = 139.7031\<rparr>"

text \<open>
  A runtime whose \<open>Number\<close> reads three numerals and whose upstream service is reached
  and answers as given.
\<close>

definition example_runtime :: "upstream \<Rightarrow> runtime" where
  "example_runtime answer =
     \<lparr>Number_of = (\<lambda>t. if t = ''35.657'' then Num 35.657
                         else if t = ''139.703'' then Num 139.703
                         else if t = ''5000'' then Num 5000
                         else NaN),
      String_of = (\<lambda>r. if r = 1000 then ''1000'' else if r = 35.657 then ''35.657''
                         else if r = 139.703 then ''139.703'' else ''200''),
      encodeURIComponent = (\<lambda>t. t),
      fetch = (\<lambda>q. answer)\<rparr>"

definition example_query :: "string \<rightharpoonup> string" where
  "example_query = [''lat'' \<mapsto> ''35.657'', ''lng'' \<mapsto> ''139.703'', ''radius'' \<mapsto> ''5000'']"


section \<open>The activation\<close>

lemma activate_unfold:
  "activate st =
     requestFrame
       (st\<lparr>orientationActive := True, headingHistory := [],
           listeners := listeners st @ [nextActivation st],
           nextActivation := Suc (nextActivation st)\<rparr>)"
  by (simp add: activate_def onCleanup_def handlerOwned_def Let_def)


section \<open>The remainder operator\<close>

lemma js_rem_pos_range:
  assumes "0 \<le> a" "0 < b"
  shows "0 \<le> js_rem a b \<and> js_rem a b < b"
proof -
  have q: "0 \<le> a / b" using assms by simp
  have t: "trunc_real (a / b) = \<lfloor>a / b\<rfloor>" using q by (simp add: trunc_real_def)
  have lo: "of_int \<lfloor>a / b\<rfloor> \<le> a / b" by simp
  have hi: "a / b < of_int \<lfloor>a / b\<rfloor> + 1" by linarith
  have "b * of_int \<lfloor>a / b\<rfloor> \<le> b * (a / b)"
    using lo assms(2) by (intro mult_left_mono) auto
  then have "b * of_int \<lfloor>a / b\<rfloor> \<le> a" using assms(2) by simp
  moreover have "b * (a / b) < b * (of_int \<lfloor>a / b\<rfloor> + 1)"
    using hi assms(2) by (intro mult_strict_left_mono) auto
  then have "a < b * (of_int \<lfloor>a / b\<rfloor> + 1)" using assms(2) by simp
  ultimately show ?thesis unfolding js_rem_def t by (simp add: algebra_simps)
qed


section \<open>The relative angle\<close>

text \<open>
  Claim C1, as the code has it. For a bearing and a heading in \<open>[0, 360)\<close> the relative
  angle \<open>((bearing - heading + 540) % 360) - 180\<close> lies in \<open>[-180, 180)\<close>: the lower
  end is reached and the upper end is not. Bearing 0 with heading 180 gives \<open>-180\<close>, and
  bearing 350 with heading 10 gives \<open>-20\<close>. The building markers and the eight cardinal
  markers (at 0, 45, 90, 135, 180, 225, 270 and 315 degrees) use the same transform.
\<close>

theorem relative_angle_range:
  assumes "0 \<le> b" "b < 360" "0 \<le> h" "h < 360"
  shows "relative_building (Some h) b = js_rem (b - h + 540) 360 - 180
       \<and> - 180 \<le> relative_building (Some h) b \<and> relative_building (Some h) b < 180
       \<and> map snd cardinals = [0, 45, 90, 135, 180, 225, 270, 315]
       \<and> (\<forall>dir \<in> set cardinals.
            relative_dir (Some h) dir = relative_building (Some h) (snd dir)
            \<and> - 180 \<le> relative_dir (Some h) dir \<and> relative_dir (Some h) dir < 180)
       \<and> relative_building (Some 180) 0 = - 180
       \<and> relative_building (Some 10) 350 = - 20"
proof -
  have range: "- 180 \<le> relative_building (Some h) c \<and> relative_building (Some h) c < 180"
    if "0 \<le> c" "c < 360" for c
  proof -
    have "0 \<le> c - h + 540" using that assms by simp
    from js_rem_pos_range [OF this, of 360]
    show ?thesis by (simp add: relative_building_def Let_def)
  qed
  have same: "relative_dir (Some h) dir = relative_building (Some h) (snd dir)" for dir
    by (simp add: relative_dir_def relative_building_def)
  have angles: "\<forall>dir \<in> set cardinals. 0 \<le> snd dir \<and> snd dir < 360"
    by (simp add: cardinals_def)
  have "relative_building (Some h) b = js_rem (b - h + 540) 360 - 180"
    by (simp add: relative_building_def Let_def)
  moreover have "map snd cardinals = [0, 45, 90, 135, 180, 225, 270, 315]"
    by (simp add: cardinals_def)
  moreover have "relative_building (Some 180) 0 = - 180"
    by (simp add: relative_building_def js_rem_def trunc_real_def)
  moreover have "relative_building (Some 10) 350 = - 20"
    by (simp add: relative_building_def js_rem_def trunc_real_def)
  ultimately show ?thesis
    using range [OF assms(1,2)] range angles same by simp
qed

theorem relative_angle_range_witness:
  "(0::real) \<le> 100 \<and> (100::real) < 360 \<and> (0::real) \<le> 90 \<and> (90::real) < 360
   \<and> relative_building (Some 90) 100 = 10
   \<and> - 180 \<le> relative_building (Some 90) 100 \<and> relative_building (Some 90) 100 < 180
   \<and> relative_dir (Some 90) (''N'', 0) = - 90"
proof -
  have v: "relative_building (Some 90) 100 = 10"
    by (simp add: relative_building_def js_rem_def trunc_real_def)
  have n: "relative_dir (Some 90) (''N'', 0) = - 90"
    by (simp add: relative_dir_def js_rem_def trunc_real_def)
  show ?thesis
    using relative_angle_range [of 100 90] v n by simp
qed

theorem relative_angle_upper_end_counterexample:
  "\<not> (- 180 < relative_building (Some 180) 0 \<and> relative_building (Some 180) 0 \<le> 180)
   \<and> relative_building (Some 180) 0 \<noteq> 180
   \<and> relative_dir (Some 180) (''N'', 0) \<noteq> 180"
  by (simp add: relative_building_def relative_dir_def js_rem_def trunc_real_def)


section \<open>Geodesy\<close>

lemma atan2_range: "- pi < atan2 y x \<and> atan2 y x \<le> pi"
proof -
  have b: "- (pi / 2) < arctan (y / x)" "arctan (y / x) < pi / 2"
    using arctan_bounded [of "y / x"] by simp_all
  have p: "0 < pi" by simp
  consider "0 < x" | "x < 0" "0 \<le> y" | "x < 0" "y < 0" | "x = 0"
    by linarith
  then show ?thesis
  proof cases
    case 1
    then show ?thesis using b p by (simp add: atan2_def)
  next
    case 2
    then have "y / x \<le> 0" by (simp add: divide_nonneg_neg)
    then have "arctan (y / x) \<le> 0" by simp
    then show ?thesis using 2 b p by (simp add: atan2_def)
  next
    case 3
    then have "0 < y / x" by (simp add: divide_neg_neg)
    then have "0 < arctan (y / x)" by simp
    then show ?thesis using 3 b p by (simp add: atan2_def)
  next
    case 4
    then have "atan2 y x = pi / 2 \<or> atan2 y x = - (pi / 2) \<or> atan2 y x = 0"
      by (simp add: atan2_def)
    then show ?thesis using p by (elim disjE) (intro conjI; linarith)+
  qed
qed

lemma atan2_nonneg: "0 \<le> y \<Longrightarrow> 0 \<le> x \<Longrightarrow> 0 \<le> atan2 y x"
  by (simp add: atan2_def)

lemma degrees_range: "- 180 < (atan2 y x * 180) / pi \<and> (atan2 y x * 180) / pi \<le> 180"
proof -
  have p: "0 < pi" by simp
  have "- pi < atan2 y x" "atan2 y x \<le> pi" using atan2_range by simp_all
  then show ?thesis using p by (simp add: pos_less_divide_eq pos_divide_le_eq)
qed



lemma haversine_range: "0 \<le> haversine_a from to \<and> haversine_a from to \<le> 1"
proof -
  define p1 where "p1 = toRad (lat from)"
  define p2 where "p2 = toRad (lat to)"
  define s where "s = (sin (toRad (lng to - lng from) / 2))\<^sup>2"
  have dl: "toRad (lat to - lat from) = p2 - p1"
    by (simp add: toRad_def p1_def p2_def algebra_simps diff_divide_distrib)
  have a: "haversine_a from to = (sin ((p2 - p1) / 2))\<^sup>2 + cos p1 * cos p2 * s"
    by (simp add: haversine_a_def Let_def dl s_def p1_def p2_def)
  have s0: "0 \<le> s" by (simp add: s_def)
  have "s = 1 - (cos (toRad (lng to - lng from) / 2))\<^sup>2"
    by (simp add: s_def sin_squared_eq)
  then have s1: "s \<le> 1" by simp
  define d where "d = (p2 - p1) / 2"
  have dd: "p2 - p1 = 2 * d" unfolding d_def by (simp add: field_simps)
  have "cos (2 * d) = 1 - 2 * (sin d)\<^sup>2" by (rule cos_double_sin)
  then have "(sin d)\<^sup>2 = (1 - cos (2 * d)) / 2" by simp
  then have h: "(sin ((p2 - p1) / 2))\<^sup>2 = (1 - cos (p2 - p1)) / 2"
    unfolding dd [symmetric] by (simp add: d_def)
  have cd: "cos (p2 - p1) = cos p1 * cos p2 + sin p1 * sin p2"
    by (simp add: cos_diff mult.commute)
  have ca: "cos (p2 + p1) = cos p1 * cos p2 - sin p1 * sin p2"
    by (simp add: cos_add mult.commute)
  have cc: "cos p1 * cos p2 = (cos (p2 - p1) + cos (p2 + p1)) / 2"
    using cd ca by simp
  have e: "haversine_a from to = (1 - (1 - s) * cos (p2 - p1) + s * cos (p2 + p1)) / 2"
    unfolding a h cc by (simp add: algebra_simps add_divide_distrib diff_divide_distrib)
  have u1: "(1 - s) * cos (p2 - p1) \<le> (1 - s) * 1"
    using s1 by (intro mult_left_mono) simp_all
  have u2: "(1 - s) * (- 1) \<le> (1 - s) * cos (p2 - p1)"
    using s1 by (intro mult_left_mono) simp_all
  have v1: "s * cos (p2 + p1) \<le> s * 1"
    using s0 by (intro mult_left_mono) simp_all
  have v2: "s * (- 1) \<le> s * cos (p2 + p1)"
    using s0 by (intro mult_left_mono) simp_all
  show ?thesis unfolding e using u1 u2 v1 v2 by simp
qed

lemma distance_nonneg:
  assumes "0 \<le> haversine_a from to + err from to" "haversine_a from to + err from to \<le> 1"
  shows "\<exists>d. distanceBetween err from to = Some d \<and> 0 \<le> d"
proof -
  define a where "a = haversine_a from to + err from to"
  have r: "0 \<le> a" "a \<le> 1" using assms by (simp_all add: a_def)
  have "0 \<le> atan2 (sqrt a) (sqrt (1 - a))"
    using r by (intro atan2_nonneg) simp_all
  then show ?thesis
    using r by (simp add: distanceBetween_def js_sqrt_def Let_def a_def [symmetric])
qed

lemma distance_exact_nonneg: "\<exists>d. distanceBetween exact from to = Some d \<and> 0 \<le> d"
  using haversine_range [of "from" "to"]
  by (intro distance_nonneg) (simp_all add: exact_def)





section \<open>The smoothed heading\<close>

lemma fold_accumulate:
  "fold (\<lambda>deg (sinSum, cosSum).
             let rad = (deg * pi) / 180 in (sinSum + sin rad, cosSum + cos rad)) xs (s, c)
   = (s + sum_list (map sin (map toRad xs)), c + sum_list (map cos (map toRad xs)))"
  by (induction xs arbitrary: s c) (simp_all add: toRad_def Let_def add.assoc)

lemma accumulate_sums:
  "accumulate xs = (sum_list (map sin (map toRad xs)), sum_list (map cos (map toRad xs)))"
  unfolding accumulate_def fold_accumulate by simp

lemma js_rem_normalize:
  assumes "- 360 \<le> d"
  shows "js_rem (d + 360) 360 = normalize360 d"
proof -
  have "0 \<le> (d + 360) / 360" using assms by simp
  then have t: "trunc_real ((d + 360) / 360) = \<lfloor>(d + 360) / 360\<rfloor>"
    by (simp add: trunc_real_def)
  have "(d + 360) / 360 = d / 360 + 1" by (simp add: add_divide_distrib)
  then have "\<lfloor>(d + 360) / 360\<rfloor> = \<lfloor>d / 360 + 1\<rfloor>" by (simp only:)
  also have "\<dots> = \<lfloor>d / 360\<rfloor> + 1" by (rule one_add_floor [symmetric])
  finally have f: "\<lfloor>(d + 360) / 360\<rfloor> = \<lfloor>d / 360\<rfloor> + 1" .
  show ?thesis unfolding js_rem_def normalize360_def t f by (simp add: algebra_simps)
qed

lemma smoothed_circularMean: "smoothed xs = circularMean xs"
proof -
  define ms where "ms = sum_list (map sin (map toRad xs)) / real (length xs)"
  define mc where "mc = sum_list (map cos (map toRad xs)) / real (length xs)"
  have "- 360 \<le> (atan2 ms mc * 180) / pi" using degrees_range [of ms mc] by simp
  from js_rem_normalize [OF this]
  show ?thesis
    by (simp add: smoothed_def circularMean_def accumulate_sums Let_def ms_def mc_def)
qed

lemma sin_350: "sin (toRad 350) = - sin (toRad 10)"
proof -
  have "toRad 350 = 2 * pi - toRad 10" by (simp add: toRad_def)
  then show ?thesis by simp
qed

lemma cos_350: "cos (toRad 350) = cos (toRad 10)"
proof -
  have "toRad 350 = 2 * pi - toRad 10" by (simp add: toRad_def)
  then show ?thesis by simp
qed

lemma cos_10_pos: "0 < cos (toRad 10)"
proof -
  have p: "0 < pi" by simp
  have "- (pi / 2) < toRad 10" "toRad 10 < pi / 2"
    using p by (simp_all add: toRad_def)
  then show ?thesis by (rule cos_gt_zero_pi)
qed

lemma circularMean_350_10: "circularMean [350, 10] = 0"
  using cos_10_pos
  by (simp add: circularMean_def Let_def sin_350 cos_350 atan2_def normalize360_def)

lemma tick_heading:
  "heading (updateHeading st) =
     (case rawHeading st of
        None \<Rightarrow> heading st
      | Some v \<Rightarrow> Some (circularMean (headingHistory (updateHeading st))))"
  by (simp add: updateHeading_def requestFrame_def smoothed_circularMean Let_def
      split: option.split)

lemma run_350_10:
  "heading (run plain_platform (ClickOrientation # sampled [350, 10]) initial_state) = Some 0"
  by (simp add: run_def sampled_def sample_def initial_state_def plain_platform_def
      startOrientation_def activate_unfold requestFrame_def handleOrientation_def eventValue_def
      updateHeading_def push_sample_def headingHistorySize_def Let_def smoothed_circularMean
      circularMean_350_10)

lemma push_sample_nonempty: "push_sample v h \<noteq> []"
  by (cases h) (simp_all add: push_sample_def headingHistorySize_def Let_def)

lemma tick_history:
  "rawHeading st = Some v
   \<Longrightarrow> headingHistory (updateHeading st) = push_sample v (headingHistory st)"
  by (simp add: updateHeading_def requestFrame_def Let_def)

lemma sin_100: "sin (toRad 100) = sin (toRad 80)"
proof -
  have "toRad 100 = pi - toRad 80" by (simp add: toRad_def)
  then show ?thesis by simp
qed

lemma cos_100: "cos (toRad 100) = - cos (toRad 80)"
proof -
  have "toRad 100 = pi - toRad 80" by (simp add: toRad_def)
  then show ?thesis by simp
qed

lemma sin_80_pos: "0 < sin (toRad 80)"
proof -
  have p: "0 < pi" by simp
  have "0 < toRad 80" "toRad 80 < pi"
    using p by (simp_all add: toRad_def)
  then show ?thesis by (rule sin_gt_zero)
qed

lemma circularMean_80_100: "circularMean [80, 100] = 90"
  using sin_80_pos
  by (simp add: circularMean_def Let_def sin_100 cos_100 atan2_def normalize360_def)

lemma run_80_100:
  "heading (run plain_platform (ClickOrientation # sampled [80, 100]) initial_state) = Some 90"
  by (simp add: run_def sampled_def sample_def initial_state_def plain_platform_def
      startOrientation_def activate_unfold requestFrame_def handleOrientation_def
      eventValue_def updateHeading_def push_sample_def headingHistorySize_def Let_def
      smoothed_circularMean circularMean_80_100)

text \<open>
  Claim C3. A re-sampling tick (\<open>updateHeading\<close>) that finds the raw value \<open>v\<close> pushes it
  onto the history and sets the smoothed heading to the circular mean of the history so
  extended (the samples then in the history), in the specification's words: each sample
  converted to radians, sines and cosines summed, \<open>atan2\<close> of the means, converted back to
  degrees, normalized to \<open>[0, 360)\<close>. A tick that finds no raw value leaves history and
  heading as they are. The circular mean of the samples 350 and 10 is 0, not 180, and that
  of 80 and 100 is 90; these are the headings after the two samples have arrived, one per
  tick.
\<close>

theorem smoothed_heading_is_circular_mean:
  "(case rawHeading st of
      None \<Rightarrow>
        heading (updateHeading st) = heading st
        \<and> headingHistory (updateHeading st) = headingHistory st
    | Some v \<Rightarrow>
        headingHistory (updateHeading st) = push_sample v (headingHistory st)
        \<and> push_sample v (headingHistory st) \<noteq> []
        \<and> heading (updateHeading st)
            = Some (circularMean (push_sample v (headingHistory st))))
   \<and> circularMean [350, 10] = 0 \<and> circularMean [350, 10] \<noteq> 180
   \<and> circularMean [80, 100] = 90
   \<and> heading (run plain_platform (ClickOrientation # sampled [350, 10]) initial_state) = Some 0
   \<and> heading (run plain_platform (ClickOrientation # sampled [80, 100]) initial_state)
       = Some 90"
proof -
  have "heading (updateHeading st) = heading st
      \<and> headingHistory (updateHeading st) = headingHistory st"
    if "rawHeading st = None"
    using that by (simp add: updateHeading_def requestFrame_def)
  moreover have "headingHistory (updateHeading st) = push_sample v (headingHistory st)
      \<and> push_sample v (headingHistory st) \<noteq> []
      \<and> heading (updateHeading st) = Some (circularMean (push_sample v (headingHistory st)))"
    if "rawHeading st = Some v" for v
    using that tick_heading [of st] tick_history [of st v]
      push_sample_nonempty [of v "headingHistory st"]
    by simp
  ultimately show ?thesis
    using circularMean_350_10 circularMean_80_100 run_350_10 run_80_100
    by (simp split: option.split)
qed


section \<open>Runs of the component\<close>

lemma fold_preserves:
  assumes "\<And>x s. P s \<Longrightarrow> P (f x s)" "P s"
  shows "P (fold f xs s)"
  using assms(2) by (induction xs arbitrary: s) (simp_all add: assms(1))

lemma run_append: "run pf (es @ fs) st = run pf fs (run pf es st)"
  by (simp add: run_def)

lemma sampled_snoc:
  "sampled (vs @ [v]) = sampled vs @ [DeviceOrientation (sample v), AnimationFrame]"
  by (simp add: sampled_def)

lemma eventValue_sample [simp]: "eventValue (sample v) = Some v"
  by (simp add: eventValue_def sample_def)

lemma handleOrientation_effect:
  "handleOrientation e st =
     (case eventValue e of
        None \<Rightarrow> st
      | Some v \<Rightarrow> st\<lparr>rawHeading := Some v,
                     heading := (case heading st of None \<Rightarrow> Some v | Some h \<Rightarrow> Some h),
                     orientationError := NoOrientationError\<rparr>)"
  by (cases st) (simp add: handleOrientation_def Let_def split: option.split)


section \<open>The bounded history\<close>

lemma push_sample_length:
  "length h \<le> headingHistorySize \<Longrightarrow> length (push_sample v h) \<le> headingHistorySize"
  by (simp add: push_sample_def Let_def)

lemma push_sample_full:
  "length h = headingHistorySize \<Longrightarrow> push_sample v h = tl h @ [v]"
  by (cases h) (simp_all add: push_sample_def headingHistorySize_def Let_def)

lemma history_handleOrientation [simp]:
  "headingHistory (handleOrientation e st) = headingHistory st"
  by (simp add: handleOrientation_def Let_def split: option.split)

lemma history_requestFrame [simp]: "headingHistory (requestFrame st) = headingHistory st"
  by (simp add: requestFrame_def)

lemma history_cleanup [simp]: "headingHistory (cleanup k st) = headingHistory st"
  by (simp add: cleanup_def Let_def split: option.split)

lemma history_updateHeading:
  "length (headingHistory st) \<le> headingHistorySize
   \<Longrightarrow> length (headingHistory (updateHeading st)) \<le> headingHistorySize"
  by (simp add: updateHeading_def push_sample_length Let_def split: option.split)

lemma history_activate [simp]: "headingHistory (activate st) = []"
  by (simp add: activate_unfold Let_def)

lemma history_step:
  assumes "length (headingHistory st) \<le> headingHistorySize"
  shows "length (headingHistory (step pf e st)) \<le> headingHistorySize"
proof (cases e)
  case (DeviceOrientation ev)
  show ?thesis unfolding DeviceOrientation step.simps
    by (rule fold_preserves [where P = "\<lambda>s. length (headingHistory s) \<le> headingHistorySize"])
      (simp_all add: assms)
next
  case AnimationFrame
  show ?thesis unfolding AnimationFrame step.simps
    by (rule fold_preserves [where P = "\<lambda>s. length (headingHistory s) \<le> headingHistorySize"])
      (simp_all add: assms history_updateHeading)
next
  case Teardown
  show ?thesis unfolding Teardown step.simps
    by (rule fold_preserves [where P = "\<lambda>s. length (headingHistory s) \<le> headingHistorySize"])
      (simp_all add: assms)
next
  case (BuildingsSettled r)
  then show ?thesis using assms by (cases r) simp_all
qed (use assms in \<open>simp_all add: requestLocation_def fallbackToDefault_def searchAround_def
      radiusInput_def startOrientation_def startOrientation_resumed_def Let_def\<close>)

lemma history_run:
  "length (headingHistory st) \<le> headingHistorySize
   \<Longrightarrow> length (headingHistory (run pf es st)) \<le> headingHistorySize"
  unfolding run_def by (induction es arbitrary: st) (simp_all add: history_step)

lemma push_sample_drop:
  "push_sample v (drop (length vs - 12) vs) = drop (length (vs @ [v]) - 12) (vs @ [v])"
proof (cases "length vs < 12")
  case True
  then show ?thesis
    by (simp add: push_sample_def headingHistorySize_def Let_def)
next
  case False
  define n where "n = length vs - 12"
  have len: "length vs = n + 12" using False by (simp add: n_def)
  have ne: "drop n vs \<noteq> []" using len by simp
  have "push_sample v (drop n vs) = tl (drop n vs @ [v])"
    using len by (simp add: push_sample_def headingHistorySize_def Let_def)
  also have "\<dots> = tl (drop n vs) @ [v]" using ne by simp
  also have "\<dots> = drop (Suc n) vs @ [v]" by (simp add: drop_Suc tl_drop)
  also have "\<dots> = drop (length (vs @ [v]) - 12) (vs @ [v])" using len by simp
  finally show ?thesis by (simp add: n_def)
qed

text \<open>
  One activation fed one sample per frame: the history holds the last twelve samples and
  the heading is their circular mean.
\<close>

lemma single_loop:
  assumes "hasDeviceOrientation pf" "\<not> needsPermission pf"
  shows "let st = run pf (ClickOrientation # sampled vs) initial_state
         in headingHistory st = drop (length vs - 12) vs
          \<and> listeners st = [0] \<and> length (frames st) = 1
          \<and> (vs \<noteq> [] \<longrightarrow> rawHeading st = Some (last vs)
                \<and> heading st = Some (circularMean (drop (length vs - 12) vs)))"
proof (induction vs rule: rev_induct)
  case Nil
  show ?case using assms
    by (simp add: run_def sampled_def initial_state_def startOrientation_def activate_unfold
        requestFrame_def Let_def)
next
  case (snoc v vs)
  define st where "st = run pf (ClickOrientation # sampled vs) initial_state"
  have ih: "headingHistory st = drop (length vs - 12) vs" "listeners st = [0]"
    "length (frames st) = 1"
    using snoc by (simp_all add: st_def Let_def)
  obtain i where fr: "frames st = [i]"
    using ih(3) by (cases "frames st") simp_all
  have r: "run pf (ClickOrientation # sampled (vs @ [v])) initial_state
        = step pf AnimationFrame (step pf (DeviceOrientation (sample v)) st)"
    unfolding st_def sampled_snoc
    using run_append [of pf "ClickOrientation # sampled vs"
        "[DeviceOrientation (sample v), AnimationFrame]" initial_state]
    by (simp add: run_def)
  define st1 where "st1 = step pf (DeviceOrientation (sample v)) st"
  have s1: "rawHeading st1 = Some v" "headingHistory st1 = headingHistory st"
    "frames st1 = [i]" "listeners st1 = [0]"
    by (simp_all add: st1_def ih fr handleOrientation_def Let_def)
  show ?case unfolding r st1_def [symmetric]
    using s1 push_sample_drop [of v vs]
    by (simp add: ih updateHeading_def requestFrame_def Let_def smoothed_circularMean)
qed

lemma thirteen_samples:
  assumes "hasDeviceOrientation pf" "\<not> needsPermission pf" "length ws = 12"
  shows "headingHistory (run pf (ClickOrientation # sampled (v # ws)) initial_state) = ws
       \<and> heading (run pf (ClickOrientation # sampled (v # ws)) initial_state)
           = Some (circularMean ws)"
  using single_loop [OF assms(1,2), of "v # ws"] assms(3) by (simp add: Let_def)

text \<open>
  Claim C6. In every run of the component, on every platform, the heading history holds
  at most 12 samples. Pushing a sample onto a history of 12 evicts the oldest one. After 13
  samples, each followed by a tick, the history is the last twelve and the smoothed heading
  is their circular mean, whatever the first sample was.
\<close>

theorem history_never_exceeds_capacity:
  "length (headingHistory (run pf es initial_state)) \<le> 12
   \<and> (length h = 12 \<longrightarrow> push_sample v h = tl h @ [v])
   \<and> (hasDeviceOrientation pf' \<and> \<not> needsPermission pf' \<and> length ws = 12 \<longrightarrow>
        headingHistory (run pf' (ClickOrientation # sampled (v # ws)) initial_state) = ws
        \<and> heading (run pf' (ClickOrientation # sampled (v # ws)) initial_state)
            = Some (circularMean ws)
        \<and> heading (run pf' (ClickOrientation # sampled (v' # ws)) initial_state)
            = heading (run pf' (ClickOrientation # sampled (v # ws)) initial_state))"
proof -
  have "length (headingHistory (run pf es initial_state)) \<le> headingHistorySize"
    by (rule history_run) (simp add: initial_state_def)
  then show ?thesis
    using push_sample_full [of h v] thirteen_samples [of pf' ws v]
      thirteen_samples [of pf' ws v']
    by (simp add: headingHistorySize_def)
qed

theorem history_never_exceeds_capacity_witness:
  "length [1, 2, 3, 4, 5, 6, 7, 8, 9, 10, 11, 12 :: real] = 12
   \<and> hasDeviceOrientation plain_platform \<and> \<not> needsPermission plain_platform
   \<and> length (headingHistory (run bare_platform [ClickOrientation, AnimationFrame] initial_state)) \<le> 12
   \<and> push_sample 0 [1, 2, 3, 4, 5, 6, 7, 8, 9, 10, 11, 12]
       = tl [1, 2, 3, 4, 5, 6, 7, 8, 9, 10, 11, 12] @ [0]
   \<and> headingHistory
        (run plain_platform
           (ClickOrientation # sampled (0 # [1, 2, 3, 4, 5, 6, 7, 8, 9, 10, 11, 12]))
           initial_state)
       = [1, 2, 3, 4, 5, 6, 7, 8, 9, 10, 11, 12]
   \<and> heading
        (run plain_platform
           (ClickOrientation # sampled (300 # [1, 2, 3, 4, 5, 6, 7, 8, 9, 10, 11, 12]))
           initial_state)
       = heading
        (run plain_platform
           (ClickOrientation # sampled (0 # [1, 2, 3, 4, 5, 6, 7, 8, 9, 10, 11, 12]))
           initial_state)"
proof -
  have l: "length [1, 2, 3, 4, 5, 6, 7, 8, 9, 10, 11, 12 :: real] = 12" by simp
  have p: "hasDeviceOrientation plain_platform" "\<not> needsPermission plain_platform"
    by (simp_all add: plain_platform_def)
  show ?thesis
    using history_never_exceeds_capacity
      [of bare_platform "[ClickOrientation, AnimationFrame]"
        "[1, 2, 3, 4, 5, 6, 7, 8, 9, 10, 11, 12]" 0 plain_platform
        "[1, 2, 3, 4, 5, 6, 7, 8, 9, 10, 11, 12]" 300] l p
    by blast
qed


section \<open>The first heading\<close>

lemma null_updateHeading:
  "rawHeading st = None \<Longrightarrow> heading st = None
   \<Longrightarrow> rawHeading (updateHeading st) = None \<and> heading (updateHeading st) = None"
  by (simp add: updateHeading_def requestFrame_def)

lemma null_cleanup:
  "rawHeading st = None \<and> heading st = None
   \<Longrightarrow> rawHeading (cleanup k st) = None \<and> heading (cleanup k st) = None"
  by (simp add: cleanup_def Let_def split: option.split)

lemma null_step:
  assumes "\<not> delivers_sample e" "rawHeading st = None \<and> heading st = None"
  shows "rawHeading (step pf e st) = None \<and> heading (step pf e st) = None"
proof (cases e)
  case (DeviceOrientation ev)
  then have "eventValue ev = None" using assms(1) by simp
  then have "\<And>k s. handleOrientation ev s = s" by (simp add: handleOrientation_def)
  then show ?thesis unfolding DeviceOrientation step.simps
    using assms(2)
    by (intro fold_preserves [where P = "\<lambda>s. rawHeading s = None \<and> heading s = None"])
      simp_all
next
  case AnimationFrame
  show ?thesis unfolding AnimationFrame step.simps
    by (rule fold_preserves [where P = "\<lambda>s. rawHeading s = None \<and> heading s = None"])
      (simp_all add: assms(2) null_updateHeading)
next
  case Teardown
  show ?thesis unfolding Teardown step.simps
    by (rule fold_preserves [where P = "\<lambda>s. rawHeading s = None \<and> heading s = None"])
      (simp_all add: assms(2) null_cleanup)
next
  case (BuildingsSettled r)
  then show ?thesis using assms(2) by (cases r) simp_all
qed (use assms(2) in \<open>simp_all add: requestLocation_def fallbackToDefault_def searchAround_def
      radiusInput_def startOrientation_def startOrientation_resumed_def activate_unfold
      requestFrame_def Let_def\<close>)

lemma null_run:
  "list_all (\<lambda>e. \<not> delivers_sample e) es \<Longrightarrow> rawHeading st = None \<and> heading st = None
   \<Longrightarrow> rawHeading (run pf es st) = None \<and> heading (run pf es st) = None"
  unfolding run_def
proof (induction es arbitrary: st)
  case Nil
  then show ?case by simp
next
  case (Cons e es)
  have "rawHeading (step pf e st) = None \<and> heading (step pf e st) = None"
    using Cons.prems by (intro null_step) simp_all
  then show ?case using Cons by simp
qed

text \<open>
  Claim C4, as the code has it. Ingesting a raw sensor sample (\<open>handleOrientation\<close> on an
  event that carries a value) records it as the latest raw value, leaves the history
  untouched and computes no mean; but when the smoothed heading is still null it sets the
  heading to the sample itself. So in every run from the initial state the heading is null
  as long as no sample has been delivered, and it need not wait for a tick.
\<close>

theorem first_sample_seeds_heading:
  "handleOrientation e st =
     (case eventValue e of
        None \<Rightarrow> st
      | Some v \<Rightarrow> st\<lparr>rawHeading := Some v,
                     heading := (case heading st of None \<Rightarrow> Some v | Some h \<Rightarrow> Some h),
                     orientationError := NoOrientationError\<rparr>)
   \<and> headingHistory (handleOrientation e st) = headingHistory st
   \<and> (list_all (\<lambda>e. \<not> delivers_sample e) es \<longrightarrow> heading (run pf es initial_state) = None)"
proof -
  have "list_all (\<lambda>e. \<not> delivers_sample e) es \<Longrightarrow> heading (run pf es initial_state) = None"
    using null_run [of es initial_state pf] by (simp add: initial_state_def)
  then show ?thesis
    using handleOrientation_effect [of e st] history_handleOrientation [of e st] by blast
qed

theorem first_sample_seeds_heading_witness:
  "list_all (\<lambda>e. \<not> delivers_sample e)
     [ClickOrientation, AnimationFrame,
      DeviceOrientation \<lparr>webkitCompassHeading = None, alpha = None\<rparr>, AnimationFrame]
   \<and> heading
        (run plain_platform
           [ClickOrientation, AnimationFrame,
            DeviceOrientation \<lparr>webkitCompassHeading = None, alpha = None\<rparr>, AnimationFrame]
           initial_state) = None
   \<and> heading (handleOrientation (sample 90) initial_state) = Some 90"
proof -
  have q: "list_all (\<lambda>e. \<not> delivers_sample e)
     [ClickOrientation, AnimationFrame,
      DeviceOrientation \<lparr>webkitCompassHeading = None, alpha = None\<rparr>, AnimationFrame]"
    by (simp add: eventValue_def)
  have "heading (handleOrientation (sample 90) initial_state) = Some 90"
    using first_sample_seeds_heading [of "sample 90" initial_state "[]" plain_platform]
    by (simp add: initial_state_def)
  then show ?thesis
    using q first_sample_seeds_heading
      [of "sample 90" initial_state
        "[ClickOrientation, AnimationFrame,
          DeviceOrientation \<lparr>webkitCompassHeading = None, alpha = None\<rparr>, AnimationFrame]"
        plain_platform]
    by blast
qed

theorem heading_set_before_first_tick_counterexample:
  "AnimationFrame \<notin> set [ClickOrientation, DeviceOrientation (sample 90)]
   \<and> heading (run plain_platform [ClickOrientation, DeviceOrientation (sample 90)]
        initial_state) = Some 90
   \<and> heading (run plain_platform [ClickOrientation, DeviceOrientation (sample 90)]
        initial_state) \<noteq> None"
  by (simp add: run_def initial_state_def plain_platform_def startOrientation_def activate_unfold
      requestFrame_def handleOrientation_effect Let_def)


section \<open>Starting and failing to start\<close>

lemma start_unsupported:
  "\<not> hasDeviceOrientation pf
   \<Longrightarrow> step pf ClickOrientation st = st\<lparr>orientationError := OrientationUnsupported\<rparr>"
  by (simp add: startOrientation_def)

lemma start_suspended:
  "hasDeviceOrientation pf \<Longrightarrow> needsPermission pf \<Longrightarrow> \<not> orientationActive st
   \<Longrightarrow> step pf ClickOrientation st
       = st\<lparr>orientationError := NoOrientationError,
             awaitingPermission := Suc (awaitingPermission st)\<rparr>"
  by (simp add: startOrientation_def)

lemma permission_denied:
  "0 < awaitingPermission st
   \<Longrightarrow> step pf (PermissionSettled Denied) st
       = st\<lparr>awaitingPermission := awaitingPermission st - 1,
             orientationError := OrientationNotGranted\<rparr>"
  by (simp add: startOrientation_resumed_def)

lemma denied_run:
  "hasDeviceOrientation pf \<Longrightarrow> needsPermission pf \<Longrightarrow> \<not> orientationActive st
   \<Longrightarrow> run pf [ClickOrientation, PermissionSettled Denied] st
       = st\<lparr>orientationError := OrientationNotGranted\<rparr>"
  by (cases st) (simp add: run_def startOrientation_def startOrientation_resumed_def)

lemma search_independent:
  "search_event e
   \<Longrightarrow> step pf e (st\<lparr>orientationError := x\<rparr>) = (step pf e st)\<lparr>orientationError := x\<rparr>"
proof (cases e)
  case (BuildingsSettled r)
  then show ?thesis by (cases r) simp_all
qed (simp_all add: requestLocation_def fallbackToDefault_def searchAround_def
      radiusInput_def Let_def)

text \<open>
  Claim C8. When \<open>startOrientation\<close> is invoked in the idle state and the orientation
  interface is absent, or the platform asks for permission and the answer is not
  "granted", the only change to the state is the error text: a distinct text for each of
  the two failures, neither of them empty. No listener is registered, no animation frame
  is requested, the active flag stays off and no cleanup is registered; between the request
  for permission and its answer only the count of suspended calls differs. The events of
  the search flow act the same whatever the orientation error is.
\<close>

theorem failed_start_stays_idle:
  assumes "\<not> orientationActive st"
  shows "(\<not> hasDeviceOrientation pf \<longrightarrow>
            step pf ClickOrientation st = st\<lparr>orientationError := OrientationUnsupported\<rparr>)
       \<and> (hasDeviceOrientation pf' \<and> needsPermission pf' \<longrightarrow>
            step pf' ClickOrientation st
              = st\<lparr>orientationError := NoOrientationError,
                    awaitingPermission := Suc (awaitingPermission st)\<rparr>
            \<and> run pf' [ClickOrientation, PermissionSettled Denied] st
              = st\<lparr>orientationError := OrientationNotGranted\<rparr>)
       \<and> (0 < awaitingPermission st' \<longrightarrow>
            step pf' (PermissionSettled Denied) st'
              = st'\<lparr>awaitingPermission := awaitingPermission st' - 1,
                     orientationError := OrientationNotGranted\<rparr>)
       \<and> OrientationUnsupported \<noteq> NoOrientationError
       \<and> OrientationNotGranted \<noteq> NoOrientationError
       \<and> OrientationUnsupported \<noteq> OrientationNotGranted
       \<and> (search_event e \<longrightarrow>
            step pf'' e (st'\<lparr>orientationError := x\<rparr>) = (step pf'' e st')\<lparr>orientationError := x\<rparr>)"
  using start_unsupported [of pf st] start_suspended [of pf' st, OF _ _ assms]
    denied_run [of pf' st, OF _ _ assms] permission_denied [of st' pf']
    search_independent [where e = e and pf = pf'' and st = st' and x = x]
  by simp

theorem failed_start_stays_idle_witness:
  "\<not> orientationActive initial_state
   \<and> \<not> hasDeviceOrientation bare_platform
   \<and> hasDeviceOrientation asking_platform \<and> needsPermission asking_platform
   \<and> 0 < awaitingPermission (initial_state\<lparr>awaitingPermission := 1\<rparr>)
   \<and> search_event ClickSearch
   \<and> step bare_platform ClickOrientation initial_state
       = initial_state\<lparr>orientationError := OrientationUnsupported\<rparr>
   \<and> run asking_platform [ClickOrientation, PermissionSettled Denied] initial_state
       = initial_state\<lparr>orientationError := OrientationNotGranted\<rparr>
   \<and> step plain_platform ClickSearch (initial_state\<lparr>awaitingPermission := 1,
          orientationError := OrientationNotGranted\<rparr>)
       = (step plain_platform ClickSearch (initial_state\<lparr>awaitingPermission := 1\<rparr>))
           \<lparr>orientationError := OrientationNotGranted\<rparr>"
proof -
  have h: "\<not> orientationActive initial_state" "\<not> hasDeviceOrientation bare_platform"
    "hasDeviceOrientation asking_platform" "needsPermission asking_platform"
    "0 < awaitingPermission (initial_state\<lparr>awaitingPermission := 1\<rparr>)"
    "search_event ClickSearch"
    by (simp_all add: initial_state_def bare_platform_def asking_platform_def)
  show ?thesis
    using h failed_start_stays_idle [OF h(1), of bare_platform asking_platform
        "initial_state\<lparr>awaitingPermission := 1\<rparr>" ClickSearch plain_platform
        OrientationNotGranted]
    by blast
qed


section \<open>Stopping\<close>

lemma cleanups_handleOrientation [simp]: "cleanups (handleOrientation e st) = cleanups st"
  by (simp add: handleOrientation_effect split: option.split)

lemma cleanups_updateHeading [simp]: "cleanups (updateHeading st) = cleanups st"
  by (simp add: updateHeading_def requestFrame_def Let_def split: option.split)

lemma cleanups_cleanup [simp]: "cleanups (cleanup k st) = cleanups st"
  by (simp add: cleanup_def Let_def split: option.split)

lemma cleanups_activate [simp]: "cleanups (activate st) = cleanups st"
  by (simp add: activate_unfold requestFrame_def)

lemma cleanups_step:
  assumes "cleanups st = []"
  shows "cleanups (step pf e st) = []"
proof (cases e)
  case (DeviceOrientation ev)
  show ?thesis unfolding DeviceOrientation step.simps
    by (rule fold_preserves [where P = "\<lambda>s. cleanups s = []"]) (simp_all add: assms)
next
  case AnimationFrame
  show ?thesis unfolding AnimationFrame step.simps
    by (rule fold_preserves [where P = "\<lambda>s. cleanups s = []"]) (simp_all add: assms)
next
  case Teardown
  show ?thesis unfolding Teardown step.simps
    by (rule fold_preserves [where P = "\<lambda>s. cleanups s = []"]) (simp_all add: assms)
next
  case (BuildingsSettled r)
  then show ?thesis using assms by (cases r) simp_all
qed (use assms in \<open>simp_all add: requestLocation_def fallbackToDefault_def searchAround_def
      radiusInput_def startOrientation_def startOrientation_resumed_def Let_def\<close>)

lemma cleanups_run: "cleanups st = [] \<Longrightarrow> cleanups (run pf es st) = []"
  unfolding run_def by (induction es arbitrary: st) (simp_all add: cleanups_step)

lemma teardown_without_cleanups: "cleanups st = [] \<Longrightarrow> step pf Teardown st = st"
  by (cases st) simp

text \<open>
  Claim C9, evaluated on the code. The callback of lines 150 to 157 would unregister the
  listener and cancel the pending frame request in one operation, but it is never
  registered: \<open>onCleanup\<close> is called from a click handler, under no owner. So in every run
  no cleanup callback is held, and the teardown of the component changes nothing. After
  one click, one orientation event and the teardown, the listener is still registered and
  the frame request still pending; the next animation frame runs \<open>updateHeading\<close>, which
  pushes onto the history and requests a further frame.
\<close>

theorem teardown_runs_no_cleanup:
  "cleanups (run pf es initial_state) = []
   \<and> step pf Teardown (run pf es initial_state) = run pf es initial_state
   \<and> listeners (run plain_platform
        [ClickOrientation, DeviceOrientation (sample 90), Teardown] initial_state) = [0]
   \<and> frames (run plain_platform
        [ClickOrientation, DeviceOrientation (sample 90), Teardown] initial_state) = [0]
   \<and> headingHistory (run plain_platform
        [ClickOrientation, DeviceOrientation (sample 90), Teardown] initial_state) = []
   \<and> headingHistory (run plain_platform
        [ClickOrientation, DeviceOrientation (sample 90), Teardown, AnimationFrame]
        initial_state) = [90]
   \<and> frames (run plain_platform
        [ClickOrientation, DeviceOrientation (sample 90), Teardown, AnimationFrame]
        initial_state) = [1]"
proof -
  have c: "cleanups (run pf es initial_state) = []"
    by (rule cleanups_run) (simp add: initial_state_def)
  have t: "step pf Teardown (run pf es initial_state) = run pf es initial_state"
    by (rule teardown_without_cleanups [OF c])
  have "listeners (run plain_platform
        [ClickOrientation, DeviceOrientation (sample 90), Teardown] initial_state) = [0]
   \<and> frames (run plain_platform
        [ClickOrientation, DeviceOrientation (sample 90), Teardown] initial_state) = [0]
   \<and> headingHistory (run plain_platform
        [ClickOrientation, DeviceOrientation (sample 90), Teardown] initial_state) = []
   \<and> headingHistory (run plain_platform
        [ClickOrientation, DeviceOrientation (sample 90), Teardown, AnimationFrame]
        initial_state) = [90]
   \<and> frames (run plain_platform
        [ClickOrientation, DeviceOrientation (sample 90), Teardown, AnimationFrame]
        initial_state) = [1]"
    by (simp add: run_def initial_state_def plain_platform_def startOrientation_def
        activate_unfold requestFrame_def handleOrientation_effect cleanup_def
        updateHeading_def push_sample_def headingHistorySize_def Let_def)
  then show ?thesis using c t by blast
qed


section \<open>Ranks and markers\<close>

lemma bearing_north:
  assumes "lng to = lng from" "lat from < lat to" "lat to - lat from < 180"
  shows "bearingBetween from to = 0"
proof -
  define p1 where "p1 = toRad (lat from)"
  define p2 where "p2 = toRad (lat to)"
  have p: "0 < pi" by simp
  have d: "p2 - p1 = (lat to - lat from) * pi / 180"
    by (simp add: p1_def p2_def toRad_def algebra_simps diff_divide_distrib)
  have "0 < p2 - p1" unfolding d using assms(2) p by simp
  moreover have "p2 - p1 < pi"
  proof -
    have "(lat to - lat from) * pi < 180 * pi" using assms(3) p by simp
    then show ?thesis unfolding d by simp
  qed
  ultimately have "0 < sin (p2 - p1)" by (rule sin_gt_zero)
  then have x: "0 < cos p1 * sin p2 - sin p1 * cos p2"
    by (simp add: sin_diff mult.commute)
  show ?thesis
    using x assms(1)
    by (simp add: bearingBetween_def Let_def p1_def [symmetric] p2_def [symmetric]
        toRad_def [of 0] atan2_def js_rem_def trunc_real_def)
qed

lemma bearing_south:
  assumes "lng to = lng from" "lat to < lat from" "lat from - lat to < 180"
  shows "bearingBetween from to = 180"
proof -
  define p1 where "p1 = toRad (lat from)"
  define p2 where "p2 = toRad (lat to)"
  have p: "0 < pi" by simp
  have d: "p1 - p2 = (lat from - lat to) * pi / 180"
    by (simp add: p1_def p2_def toRad_def algebra_simps diff_divide_distrib)
  have "0 < p1 - p2" unfolding d using assms(2) p by simp
  moreover have "p1 - p2 < pi"
  proof -
    have "(lat from - lat to) * pi < 180 * pi" using assms(3) p by simp
    then show ?thesis unfolding d by simp
  qed
  ultimately have "0 < sin (p1 - p2)" by (rule sin_gt_zero)
  then have x: "cos p1 * sin p2 - sin p1 * cos p2 < 0"
    by (simp add: sin_diff mult.commute)
  show ?thesis
    using x assms(1)
    by (simp add: bearingBetween_def Let_def p1_def [symmetric] p2_def [symmetric]
        toRad_def [of 0] atan2_def js_rem_def trunc_real_def)
qed

lemma bearing_unnamed [simp]:
  "bearingBetween user \<lparr>lat = lat_b unnamed, lng = lng_b unnamed\<rparr> = 0"
  by (rule bearing_north) (simp_all add: user_def unnamed_def)

lemma bearing_hall [simp]:
  "bearingBetween user \<lparr>lat = lat_b hall, lng = lng_b hall\<rparr> = 0"
  by (rule bearing_north) (simp_all add: user_def hall_def)

lemma bearing_shrine [simp]:
  "bearingBetween user \<lparr>lat = lat_b shrine, lng = lng_b shrine\<rparr> = 0"
  by (rule bearing_north) (simp_all add: user_def shrine_def)

lemma bearing_tower [simp]:
  "bearingBetween user \<lparr>lat = lat_b tower, lng = lng_b tower\<rparr> = 180"
  by (rule bearing_south) (simp_all add: user_def tower_def)

lemma indexOf_nth:
  "distinct xs \<Longrightarrow> i < length xs \<Longrightarrow> indexOf xs (xs ! i) = int i"
proof (induction xs arbitrary: i)
  case Nil
  then show ?case by simp
next
  case (Cons x xs)
  show ?case
  proof (cases i)
    case 0
    then show ?thesis by simp
  next
    case (Suc j)
    then have "xs ! j \<in> set xs" "indexOf xs (xs ! j) = int j"
      using Cons by simp_all
    then show ?thesis using Cons.prems Suc by (auto simp: Let_def)
  qed
qed

lemma ranks_of_sorted:
  "distinct xs \<Longrightarrow> map (indexOf xs) xs = map int [0..<length xs]"
  by (rule nth_equalityI) (simp_all add: indexOf_nth)

lemma ranks_distinct_bearings:
  assumes "distinct xs"
  defines "ranks \<equiv> beadingRanks (map Some xs)"
  shows "mset ranks = mset (map int [0..<length xs])"
    and "\<And>i j. i < length xs \<Longrightarrow> j < length xs \<Longrightarrow> (ranks ! i < ranks ! j) = (xs ! i < xs ! j)"
proof -
  define B where "B = map Some xs"
  define S where "S = sort_key nullAsZero B"
  have dB: "distinct B" using assms(1) by (simp add: B_def distinct_map)
  have mS: "mset S = mset B" by (simp add: S_def)
  have dS: "distinct S" using dB by (simp add: S_def)
  have lS: "length S = length xs" by (simp add: S_def B_def)
  have r: "ranks = map (indexOf S) B"
    by (simp add: ranks_def beadingRanks_def S_def B_def Let_def)
  have "mset ranks = image_mset (indexOf S) (mset B)" by (simp add: r)
  also have "\<dots> = mset (map (indexOf S) S)" by (simp add: mS [symmetric])
  also have "\<dots> = mset (map int [0..<length xs])"
    using ranks_of_sorted [OF dS] by (simp add: lS)
  finally show "mset ranks = mset (map int [0..<length xs])" .
  have keys: "map nullAsZero S = sort xs"
  proof -
    have "sorted (map nullAsZero S)" by (simp add: S_def)
    moreover have "mset (map nullAsZero S) = mset xs"
      by (simp add: mS B_def nullAsZero_def comp_def multiset.map_comp)
    ultimately show ?thesis by (metis properties_for_sort)
  qed
  have strict: "sorted_wrt (<) (map nullAsZero S)"
    using assms(1) by (simp add: keys strict_sorted_iff)
  have pos: "\<exists>p < length S. S ! p = Some (xs ! i) \<and> ranks ! i = int p" if "i < length xs" for i
  proof -
    have "Some (xs ! i) \<in> set B" using that by (simp add: B_def)
    then have "Some (xs ! i) \<in> set S" by (simp add: S_def)
    then obtain p where p: "p < length S" "S ! p = Some (xs ! i)"
      by (auto simp: in_set_conv_nth)
    have "ranks ! i = indexOf S (Some (xs ! i))" using that by (simp add: r B_def)
    also have "\<dots> = int p" using indexOf_nth [OF dS p(1)] p(2) by simp
    finally show ?thesis using p by blast
  qed
  fix i j assume ij: "i < length xs" "j < length xs"
  obtain p where p: "p < length S" "S ! p = Some (xs ! i)" "ranks ! i = int p"
    using pos [OF ij(1)] by blast
  obtain q where q: "q < length S" "S ! q = Some (xs ! j)" "ranks ! j = int q"
    using pos [OF ij(2)] by blast
  have kp: "map nullAsZero S ! p = xs ! i" using p by (simp add: nullAsZero_def)
  have kq: "map nullAsZero S ! q = xs ! j" using q by (simp add: nullAsZero_def)
  have less: "a < b \<Longrightarrow> b < length S \<Longrightarrow> map nullAsZero S ! a < map nullAsZero S ! b" for a b
    using sorted_wrt_nth_less [OF strict, of a b] by simp
  show "(ranks ! i < ranks ! j) = (xs ! i < xs ! j)"
  proof
    assume "ranks ! i < ranks ! j"
    then have "p < q" using p q by simp
    from less [OF this q(1)] show "xs ! i < xs ! j" by (simp only: kp kq)
  next
    assume a: "xs ! i < xs ! j"
    show "ranks ! i < ranks ! j"
    proof (rule ccontr)
      assume "\<not> ranks ! i < ranks ! j"
      then have "q \<le> p" using p q by simp
      then consider "q = p" | "q < p" by linarith
      then show False
      proof cases
        case 1
        then show False using a kp kq by simp
      next
        case 2
        from less [OF this p(1)] show False using a by (simp only: kp kq)
      qed
    qed
  qed
qed

lemma beadings_known:
  "beadings (Some from) bs
   = map Some (map (\<lambda>b. bearingBetween from \<lparr>lat = lat_b b, lng = lng_b b\<rparr>) bs)"
  by (simp add: beadings_def)

lemma offsets_any_heading:
  "map offset (radial_markers err h from bs) = map offset (radial_markers err h' from bs)"
  by (simp add: radial_markers_def building_marker_def Let_def split_def)

text \<open>
  Claim C2, as the code has it. For a building list whose bearings from the known user
  coordinate are pairwise distinct, the ranks \<open>beadingRanks\<close> assigns are a permutation of
  \<open>0..N-1\<close>, ordered as the bearings are: one building's rank is below another's exactly
  when its bearing is. The vertical offsets of the markers are the same under every
  heading. Bearings 10 and 10.5 get the ranks 0 and 1.
\<close>

theorem vertical_rank_permutation:
  assumes "distinct (beadings (Some from) bs)"
  shows "mset (beadingRanks (beadings (Some from) bs)) = mset (map int [0..<length bs])
       \<and> (\<forall>i j. i < length bs \<and> j < length bs \<longrightarrow>
            (beadingRanks (beadings (Some from) bs) ! i
               < beadingRanks (beadings (Some from) bs) ! j)
            = (bearingBetween from \<lparr>lat = lat_b (bs ! i), lng = lng_b (bs ! i)\<rparr>
               < bearingBetween from \<lparr>lat = lat_b (bs ! j), lng = lng_b (bs ! j)\<rparr>))
       \<and> map offset (radial_markers err h from bs) = map offset (radial_markers err h' from bs)
       \<and> beadingRanks [Some 10, Some 10.5] = [0, 1]"
proof -
  define xs where "xs = map (\<lambda>b. bearingBetween from \<lparr>lat = lat_b b, lng = lng_b b\<rparr>) bs"
  have b: "beadings (Some from) bs = map Some xs" by (simp add: beadings_known xs_def)
  have d: "distinct xs" using assms by (simp add: b distinct_map)
  have n: "beadingRanks [Some 10, Some 10.5] = [0, 1]"
    by (simp add: beadingRanks_def nullAsZero_def Let_def)
  have "xs ! i = bearingBetween from \<lparr>lat = lat_b (bs ! i), lng = lng_b (bs ! i)\<rparr>"
    if "i < length bs" for i using that by (simp add: xs_def)
  then show ?thesis
    using ranks_distinct_bearings [OF d] offsets_any_heading [of err h "from" bs h'] n
    by (simp add: b xs_def)
qed

theorem vertical_rank_permutation_witness:
  "distinct (beadings (Some user) [tower, hall])
   \<and> beadingRanks (beadings (Some user) [tower, hall]) = [1, 0]
   \<and> mset (beadingRanks (beadings (Some user) [tower, hall]))
       = mset (map int [0..<length [tower, hall]])
   \<and> map offset (radial_markers exact (Some 0) user [tower, hall])
       = map offset (radial_markers exact (Some 90) user [tower, hall])"
proof -
  have d: "distinct (beadings (Some user) [tower, hall])"
    by (simp add: beadings_def)
  have r: "beadingRanks (beadings (Some user) [tower, hall]) = [1, 0]"
    by (simp add: beadings_def beadingRanks_def nullAsZero_def Let_def)
  show ?thesis
    using d r vertical_rank_permutation [OF d, of exact "Some 0" "Some 90"] by blast
qed

theorem equal_bearings_share_a_rank_counterexample:
  "beadingRanks (beadings (Some user) [hall, shrine]) = [0, 0]
   \<and> mset (beadingRanks (beadings (Some user) [hall, shrine]))
       \<noteq> mset (map int [0..<length [hall, shrine]])"
proof -
  have r: "beadingRanks (beadings (Some user) [hall, shrine]) = [0, 0]"
    by (simp add: beadings_def beadingRanks_def nullAsZero_def Let_def)
  have "mset [0, 0 :: int] \<noteq> mset (map int [0..<length [hall, shrine]])"
  proof
    assume "mset [0, 0 :: int] = mset (map int [0..<length [hall, shrine]])"
    then have "set [0, 0 :: int] = set (map int [0..<length [hall, shrine]])"
      by (rule mset_eq_setD)
    moreover have "1 \<in> set (map int [0..<length [hall, shrine]])" by simp
    ultimately show False by simp
  qed
  then show ?thesis by (simp only: r) simp
qed

text \<open>
  Claim C7, evaluated on the code. The placeholder filter touches the marker list alone:
  the list view shows every building. But a marker reads \<open>beadings\<close> and \<open>beadingRanks\<close>,
  which run over all buildings, at its index in the filtered list. With a placeholder
  building due north listed before a tower due south, and the heading 0, the tower's
  marker shows the relative angle 0 and the offset of rank 0, which are the placeholder
  building's; the tower's own are \<open>-180\<close> and the offset of rank 1. Its distance is
  computed from the tower's own coordinates.
\<close>

theorem marker_reads_another_buildings_bearing:
  "map shown (radial_markers err (Some 0) user [unnamed, tower]) = [tower]
   \<and> map relativeValue (radial_markers err (Some 0) user [unnamed, tower]) = [Some 0]
   \<and> relative_building (Some 0)
        (bearingBetween user \<lparr>lat = lat_b tower, lng = lng_b tower\<rparr>) = - 180
   \<and> beadingRanks (beadings (Some user) [unnamed, tower]) = [0, 1]
   \<and> map offset (radial_markers err (Some 0) user [unnamed, tower]) = [Some (verticalOffset 0)]
   \<and> verticalOffset 0 = - 240 \<and> verticalOffset 1 = - 216
   \<and> map distanceMeters (radial_markers err (Some 0) user [unnamed, tower])
       = [distanceBetween err user \<lparr>lat = lat_b tower, lng = lng_b tower\<rparr>]
   \<and> list_view [unnamed, tower] = [unnamed, tower]"
proof -
  have f: "filter (\<lambda>v. label v \<noteq> ''yes'') [unnamed, tower] = [tower]"
    by (simp add: unnamed_def tower_def)
  have b: "beadings (Some user) [unnamed, tower] = [Some 0, Some 180]"
    by (simp add: beadings_def)
  have r: "beadingRanks [Some 0, Some 180] = [0, 1]"
    by (simp add: beadingRanks_def nullAsZero_def Let_def)
  have m: "radial_markers err (Some 0) user [unnamed, tower]
         = [building_marker err (Some 0) user [unnamed, tower] tower 0]"
    unfolding radial_markers_def Let_def f by simp
  have v: "relative_building (Some 0) 0 = 0" "relative_building (Some 0) 180 = - 180"
    "verticalOffset 0 = - 240" "verticalOffset 1 = - 216"
    by (simp_all add: relative_building_def verticalOffset_def js_rem_def js_rem_int_def
        trunc_real_def)
  show ?thesis
    unfolding m by (simp add: building_marker_def at_index_def b r v list_view_def Let_def)
qed

section \<open>The backend route\<close>

lemma invalid_coordinates:
  "\<not> isFinite (toNumber rt (query ''lat'')) \<or> \<not> isFinite (toNumber rt (query ''lng''))
   \<Longrightarrow> get_buildings rt query = ([], Json (ErrorBody ''Invalid coordinates.'') 400)"
  by (cases "toNumber rt (query ''lat'')"; cases "toNumber rt (query ''lng'')")
    (simp_all add: get_buildings_def)

lemma clamped_range: "50 \<le> clampedRadius_of n \<and> clampedRadius_of n \<le> 1000"
  by (simp add: clampedRadius_of_def Let_def split: jsnum.split)

lemma clamped_value:
  "clampedRadius_of n = (case n of Num r \<Rightarrow> min (max r 50) 1000 | _ \<Rightarrow> 200)"
  by (cases n) (simp_all add: clampedRadius_of_def)

lemma valid_coordinates:
  assumes "toNumber rt (query ''lat'') = Num la" "toNumber rt (query ''lng'') = Num lo"
  shows "get_buildings rt query =
     ([overpassRequest rt
         (overpassQuery rt (clampedRadius_of (toNumber rt (query ''radius''))) la lo)],
      case fetch rt (overpassRequest rt
             (overpassQuery rt (clampedRadius_of (toNumber rt (query ''radius''))) la lo)) of
        Rejected \<Rightarrow> Threw
      | Response ok data \<Rightarrow>
          (if \<not> ok then Json (ErrorBody ''Failed to fetch OSM data.'') 502
           else case data of
                  None \<Rightarrow> Threw
                | Some elements \<Rightarrow>
                    Json (BuildingsBody
                            (List.map_filter toBuilding
                               (case elements of None \<Rightarrow> [] | Some es \<Rightarrow> es))
                            (clampedRadius_of (toNumber rt (query ''radius'')))) 200))"
  using assms
  by (simp add: get_buildings_def Let_def split: upstream.split option.split)

text \<open>
  Claim C10, as the code has it. If the \<open>lat\<close> or the \<open>lng\<close> parameter does not convert to
  a finite number the handler answers 400 and sends nothing upstream. Otherwise the
  effective radius is the converted \<open>radius\<close> when that is finite and 200 when not, clamped
  into \<open>[50, 1000]\<close>; one request carrying it is sent upstream; and when the upstream answer
  is ok and parses, the response body echoes this clamped radius. When the upstream answer
  is not ok the handler answers 502 with an error body, which has no radius.
\<close>

theorem buildings_route_validates_and_clamps:
  "(\<not> isFinite (toNumber rt (query ''lat'')) \<or> \<not> isFinite (toNumber rt (query ''lng''))
      \<longrightarrow> get_buildings rt query = ([], Json (ErrorBody ''Invalid coordinates.'') 400))
   \<and> 50 \<le> clampedRadius_of n \<and> clampedRadius_of n \<le> 1000
   \<and> clampedRadius_of n = (case n of Num r \<Rightarrow> min (max r 50) 1000 | _ \<Rightarrow> 200)
   \<and> (toNumber rt' (query' ''lat'') = Num la \<and> toNumber rt' (query' ''lng'') = Num lo \<longrightarrow>
        fst (get_buildings rt' query')
          = [overpassRequest rt'
               (overpassQuery rt' (clampedRadius_of (toNumber rt' (query' ''radius''))) la lo)]
        \<and> (fetch rt' (overpassRequest rt'
               (overpassQuery rt' (clampedRadius_of (toNumber rt' (query' ''radius''))) la lo))
              = Response True (Some elements) \<longrightarrow>
            snd (get_buildings rt' query')
              = Json (BuildingsBody
                        (List.map_filter toBuilding
                           (case elements of None \<Rightarrow> [] | Some es \<Rightarrow> es))
                        (clampedRadius_of (toNumber rt' (query' ''radius'')))) 200)
        \<and> (fetch rt' (overpassRequest rt'
               (overpassQuery rt' (clampedRadius_of (toNumber rt' (query' ''radius''))) la lo))
              = Response False payload \<longrightarrow>
            snd (get_buildings rt' query')
              = Json (ErrorBody ''Failed to fetch OSM data.'') 502))"
  using invalid_coordinates [of rt query] clamped_range [of n] clamped_value [of n]
    valid_coordinates [of rt' query' la lo]
  by simp

theorem buildings_route_validates_and_clamps_witness:
  "\<not> isFinite (toNumber (example_runtime Rejected) (Map.empty ''lat''))
   \<and> get_buildings (example_runtime Rejected) Map.empty
       = ([], Json (ErrorBody ''Invalid coordinates.'') 400)
   \<and> toNumber (example_runtime (Response True (Some None))) (example_query ''lat'') = Num 35.657
   \<and> toNumber (example_runtime (Response True (Some None))) (example_query ''lng'') = Num 139.703
   \<and> clampedRadius_of (toNumber (example_runtime (Response True (Some None)))
        (example_query ''radius'')) = 1000
   \<and> snd (get_buildings (example_runtime (Response True (Some None))) example_query)
       = Json (BuildingsBody [] 1000) 200"
proof -
  let ?rt = "example_runtime (Response True (Some None))"
  have a: "\<not> isFinite (toNumber (example_runtime Rejected) (Map.empty ''lat''))"
    by (simp add: toNumber_def)
  have b: "toNumber ?rt (example_query ''lat'') = Num 35.657"
    "toNumber ?rt (example_query ''lng'') = Num 139.703"
    by (simp_all add: toNumber_def example_runtime_def example_query_def)
  have c: "clampedRadius_of (toNumber ?rt (example_query ''radius'')) = 1000"
    by (simp add: toNumber_def example_runtime_def example_query_def clampedRadius_of_def)
  have f: "fetch ?rt q = Response True (Some None)" for q
    by (simp add: example_runtime_def)
  show ?thesis
    using a b c f
      buildings_route_validates_and_clamps
        [where rt = "example_runtime Rejected" and query = Map.empty and n = "Num 5000"
          and rt' = ?rt and query' = example_query and la = "35.657" and lo = "139.703"
          and elements = None]
    by simp
qed

theorem radius_not_echoed_on_upstream_failure_counterexample:
  "isFinite (toNumber (example_runtime (Response False None)) (example_query ''lat''))
   \<and> isFinite (toNumber (example_runtime (Response False None)) (example_query ''lng''))
   \<and> snd (get_buildings (example_runtime (Response False None)) example_query)
       = Json (ErrorBody ''Failed to fetch OSM data.'') 502
   \<and> (\<forall>bs r. snd (get_buildings (example_runtime (Response False None)) example_query)
          \<noteq> Json (BuildingsBody bs r) 200)"
  by (simp add: get_buildings_def example_runtime_def example_query_def toNumber_def Let_def)

end
